theory Spec2Isabelle
  imports Complex_Main
begin

section \<open>Python values, exceptions and configuration\<close>

text \<open>
  The type \<open>exn\<close> stands for a raised instance of Python's \<open>Exception\<close> class, which is
  what every \<open>except Exception\<close> handler of the source catches. A callable of the
  program returns \<open>Inl e\<close> when it raises \<open>e\<close> and \<open>Inr v\<close> when it returns \<open>v\<close>.
\<close>

datatype exn = Exception string | AttributeError string | NoSuchProcess string

text \<open>
  The scalar values an \<open>audit_id\<close> may take: \<open>None\<close>, a bool, an int or a str.
  \<open>py_truthy\<close> is Python's truth test and \<open>py_str\<close> is \<open>str(...)\<close> on these values.
\<close>

datatype pyval = PNone | PBool bool | PInt int | PStr string

fun py_truthy :: "pyval \<Rightarrow> bool" where
  "py_truthy PNone = False"
| "py_truthy (PBool b) = b"
| "py_truthy (PInt i) = (i \<noteq> 0)"
| "py_truthy (PStr s) = (s \<noteq> [])"

fun dec :: "nat \<Rightarrow> string" where
  "dec n = (if n < 10 then [''0123456789'' ! n]
            else dec (n div 10) @ [''0123456789'' ! (n mod 10)])"

declare dec.simps [simp del]

fun py_str :: "pyval \<Rightarrow> string" where
  "py_str PNone = ''None''"
| "py_str (PBool b) = (if b then ''True'' else ''False'')"
| "py_str (PInt i) = (if i < 0 then CHR ''-'' # dec (nat (- i)) else dec (nat i))"
| "py_str (PStr s) = s"

text \<open>
  What an \<open>info\<close> callable returns: a dict from keys to values, or some other object.
  \<open>metadata_get\<close> is the method call \<open>metadata.get(key)\<close>: a dict answers with the
  value or \<open>None\<close>; any other object of this model has no attribute \<open>get\<close>.
\<close>

datatype metadata = PDict "string \<rightharpoonup> pyval" | PValue pyval

fun metadata_get :: "metadata \<Rightarrow> string \<Rightarrow> exn + pyval" where
  "metadata_get (PDict d) k = Inr (case d k of None \<Rightarrow> PNone | Some v \<Rightarrow> v)"
| "metadata_get (PValue v) k = Inl (AttributeError ''get'')"

text \<open>
  The \<open>info\<close> argument of \<open>trace_with_memory\<close>: absent (\<open>None\<close>), a dict, or a callable
  over the call's arguments. \<open>info_truthy\<close> and \<open>info_callable\<close> are \<open>bool(info)\<close> and
  \<open>callable(info)\<close>.
\<close>

datatype 'a info = NoInfo | InfoDict "string \<rightharpoonup> pyval" | InfoFn "'a \<Rightarrow> exn + metadata"

fun info_truthy :: "'a info \<Rightarrow> bool" where
  "info_truthy NoInfo = False"
| "info_truthy (InfoDict d) = (d \<noteq> Map.empty)"
| "info_truthy (InfoFn g) = True"

fun info_callable :: "'a info \<Rightarrow> bool" where
  "info_callable NoInfo = False"
| "info_callable (InfoDict d) = False"
| "info_callable (InfoFn g) = True"

text \<open>The options of the \<open>profiler\<close> group that the code reads or registers.\<close>

record config =
  enabled :: bool
  trace_audit_execution :: bool
  trace_memory_usage :: bool

text \<open>The defaults registered by \<open>profiler_opts_list\<close>, for a given master switch.\<close>

definition profiler_defaults :: "bool \<Rightarrow> config" where
  "profiler_defaults en =
     \<lparr>enabled = en, trace_audit_execution = True, trace_memory_usage = True\<rparr>"

section \<open>The external collaborators of the profiler utilities\<close>

text \<open>
  The dict handed to \<open>profiler.stop\<close> has four fixed keys. Memory readings are the
  resident set size in bytes divided twice by 1024; for sizes below \<open>2 ^ 53\<close> bytes
  these divisions and the subtraction are exact in binary floating point, so the
  megabyte values are modelled as rationals.
\<close>

record stop_info =
  memory_baseline_mb :: rat
  memory_peak_mb :: rat
  memory_delta_mb :: rat
  audit_id :: "string option"

text \<open>
  The calls that \<open>MemoryTracker\<close> makes to its collaborators, in the order made:
  \<open>self.process.memory_info()\<close>, \<open>profiler.stop(dict)\<close> and \<open>LOG.warning(msg, e)\<close>.
\<close>

datatype call = Memory_info | Profiler_stop stop_info | LOG_warning string exn

text \<open>
  The world is the state \<open>proc\<close> of the process and of the tracing backend, which is
  opaque to this code, together with the log of calls made so far.
\<close>

record 's world =
  proc :: 's
  calls :: "call list"

type_synonym ('a, 's, 'r) callable = "'a \<Rightarrow> 's \<Rightarrow> (exn + 'r) \<times> 's"

text \<open>
  The collaborators are parameters: the configuration object \<open>CONF.profiler\<close>, the
  psutil constructor \<open>psutil.Process()\<close> (\<open>None\<close> when it returns the handle, \<open>Some e\<close>
  when it raises \<open>e\<close>), the psutil reading \<open>memory_info().rss\<close> through that handle
  (read-only, may raise), osprofiler's \<open>profiler.stop(info)\<close> (may raise, may change the
  backend) and osprofiler's decorator \<open>profiler.trace(name, info=info)\<close>.
\<close>

record ('a, 's, 'r) env =
  CONF :: config
  psutil_Process :: "'s \<Rightarrow> exn option"
  memory_info :: "'s \<Rightarrow> exn + nat"
  profiler_stop :: "stop_info \<Rightarrow> 's \<Rightarrow> exn option \<times> 's"
  profiler_trace :: "string \<Rightarrow> 'a info \<Rightarrow> ('a, 's, 'r) callable \<Rightarrow> ('a, 's, 'r) callable"

section \<open>MemoryTracker\<close>

text \<open>
  The fields of a tracker. The handle \<open>self.process\<close> is not a field here: the reading
  \<open>self.process.memory_info().rss\<close> is the parameter \<open>memory_info\<close> of the process state.
  The configuration does not change during one invocation.
\<close>

record MemoryTracker =
  trace_name :: string
  tracker_audit_id :: pyval
  mem_baseline :: "rat option"
  mem_peak :: "rat option"

text \<open>
  \<open>__init__\<close>: the call \<open>psutil.Process()\<close> stands outside any \<open>try\<close>, so when it raises
  the constructor raises and no tracker exists.
\<close>

definition MemoryTracker_init ::
  "('a, 's, 'r) env \<Rightarrow> string \<Rightarrow> pyval \<Rightarrow> 's \<Rightarrow> exn + MemoryTracker" where
  "MemoryTracker_init E name aid s =
     (case psutil_Process E s of
        Some e \<Rightarrow> Inl e
      | None \<Rightarrow>
          Inr \<lparr>trace_name = name, tracker_audit_id = aid, mem_baseline = None,
               mem_peak = None\<rparr>)"

text \<open>\<open>__enter__\<close>: capture the baseline when \<open>trace_memory_usage\<close> is set.\<close>

definition MemoryTracker_enter ::
  "('a, 's, 'r) env \<Rightarrow> MemoryTracker \<Rightarrow> 's world \<Rightarrow> MemoryTracker \<times> 's world" where
  "MemoryTracker_enter E self w =
     (if trace_memory_usage (CONF E) then
        (case memory_info E (proc w) of
           Inr rss \<Rightarrow>
             (self\<lparr>mem_baseline := Some (of_nat rss / 1024 / 1024)\<rparr>,
              w\<lparr>calls := calls w @ [Memory_info]\<rparr>)
         | Inl e \<Rightarrow>
             (self\<lparr>mem_baseline := None\<rparr>,
              w\<lparr>calls := calls w @
                 [Memory_info, LOG_warning ''Failed to capture baseline memory: %s'' e]\<rparr>))
      else (self, w))"

text \<open>
  \<open>__exit__\<close>: capture the peak and hand the metrics to \<open>profiler.stop\<close>. The first
  component is the method's return value (whether to suppress the body's exception).
\<close>

definition MemoryTracker_exit ::
  "('a, 's, 'r) env \<Rightarrow> MemoryTracker \<Rightarrow> 's world \<Rightarrow> bool \<times> MemoryTracker \<times> 's world" where
  "MemoryTracker_exit E self w =
     (if trace_memory_usage (CONF E) \<and> mem_baseline self \<noteq> None then
        (case memory_info E (proc w) of
           Inr rss \<Rightarrow>
             (let self1 = self\<lparr>mem_peak := Some (of_nat rss / 1024 / 1024)\<rparr>;
                  mem_delta = the (mem_peak self1) - the (mem_baseline self1);
                  d = \<lparr>memory_baseline_mb = the (mem_baseline self1),
                       memory_peak_mb = the (mem_peak self1),
                       memory_delta_mb = mem_delta,
                       audit_id = (if py_truthy (tracker_audit_id self1)
                                   then Some (py_str (tracker_audit_id self1)) else None)\<rparr>
              in case profiler_stop E d (proc w) of
                   (None, s) \<Rightarrow>
                     (False, self1,
                      w\<lparr>proc := s, calls := calls w @ [Memory_info, Profiler_stop d]\<rparr>)
                 | (Some e, s) \<Rightarrow>
                     (False, self1,
                      w\<lparr>proc := s, calls := calls w @
                         [Memory_info, Profiler_stop d,
                          LOG_warning ''Failed to capture peak memory: %s'' e]\<rparr>))
         | Inl e \<Rightarrow>
             (False, self,
              w\<lparr>calls := calls w @
                 [Memory_info, LOG_warning ''Failed to capture peak memory: %s'' e]\<rparr>))
      else (False, self, w))"

section \<open>trace_with_memory\<close>

text \<open>
  Lines 94 to 100 of the wrapper: the \<open>audit_id\<close> handed to the tracker. It stays
  \<open>None\<close> unless \<open>info\<close> is truthy and callable, the call returns, and \<open>.get\<close> works.
  A callable \<open>info\<close> computes metadata from the arguments and leaves the process alone.
\<close>

definition wrapper_audit_id :: "'a info \<Rightarrow> 'a \<Rightarrow> pyval" where
  "wrapper_audit_id info args =
     (if info_truthy info \<and> info_callable info then
        (case info of
           InfoFn g \<Rightarrow>
             (case g args of
                Inl e \<Rightarrow> PNone
              | Inr metadata \<Rightarrow>
                  (case metadata_get metadata ''audit_id'' of
                     Inl e \<Rightarrow> PNone
                   | Inr v \<Rightarrow> v))
         | _ \<Rightarrow> PNone)
      else PNone)"

text \<open>
  The wrapper returned by \<open>trace_with_memory(name, info)(func)\<close>, applied to the call's
  arguments. The \<open>with\<close> statement first constructs the tracker; an exception of the
  constructor leaves the wrapper at once. It then runs \<open>__enter__\<close>, the traced function
  and \<open>__exit__\<close>; an exception of the body is suppressed only when \<open>__exit__\<close> returns
  true, and the wrapper then returns Python's \<open>None\<close> (here: \<open>Inr None\<close>).
\<close>

definition trace_with_memory ::
  "('a, 's, 'r) env \<Rightarrow> string \<Rightarrow> 'a info \<Rightarrow> ('a, 's, 'r) callable \<Rightarrow>
   'a \<Rightarrow> 's world \<Rightarrow> (exn + 'r option) \<times> 's world" where
  "trace_with_memory E name info func args w =
     (let traced_func = profiler_trace E name info func;
          aid = wrapper_audit_id info args
      in case MemoryTracker_init E name aid (proc w) of
           Inl e \<Rightarrow> (Inl e, w)
         | Inr self0 \<Rightarrow>
             (let (self, w1) = MemoryTracker_enter E self0 w;
                  (res, s2) = traced_func args (proc w1);
                  (suppress, self2, w3) = MemoryTracker_exit E self (w1\<lparr>proc := s2\<rparr>)
              in (case res of
                    Inl e \<Rightarrow> (if suppress then Inr None else Inl e)
                  | Inr v \<Rightarrow> Inr (Some v),
                  w3)))"

text \<open>\<open>is_profiling_enabled\<close>; \<open>profiler_get\<close> says whether \<open>profiler.get()\<close> is not None.\<close>

definition is_profiling_enabled :: "config \<Rightarrow> bool \<Rightarrow> bool" where
  "is_profiling_enabled c profiler_get = (enabled c \<and> profiler_get)"

text \<open>What a call log shows: the dicts published, and the number of memory samples.\<close>

fun published :: "call list \<Rightarrow> stop_info list" where
  "published [] = []"
| "published (Profiler_stop d # cs) = d # published cs"
| "published (c # cs) = published cs"

fun samples :: "call list \<Rightarrow> nat" where
  "samples [] = 0"
| "samples (Memory_info # cs) = Suc (samples cs)"
| "samples (c # cs) = samples cs"

text \<open>A world whose call log is still empty.\<close>

definition fresh :: "'s \<Rightarrow> 's world" where
  "fresh s = \<lparr>proc = s, calls = []\<rparr>"

section \<open>A recording backend\<close>

text \<open>
  The state of a backend that records what reaches it: the resident set size of the
  process in bytes and the span events seen so far.
\<close>

datatype span_event = Span_start string | Span_stop | Span_stop_info stop_info

record backend =
  rss :: nat
  spans :: "span_event list"

text \<open>
  Modelled from the spec: the decorator \<open>profiler.trace(name, info=info)\<close> of the external
  tracing library, of which the spec says that a span is created by "open span with
  name + metadata" and closed by "close span", around the target callable, whose result
  or exception it hands on.
\<close>

definition span_trace ::
  "string \<Rightarrow> 'a info \<Rightarrow> ('a, backend, 'r) callable \<Rightarrow> ('a, backend, 'r) callable" where
  "span_trace name info f args s =
     (let (res, s1) = f args (s\<lparr>spans := spans s @ [Span_start name]\<rparr>)
      in (res, s1\<lparr>spans := spans s1 @ [Span_stop]\<rparr>))"

text \<open>
  Modelled from the spec: \<open>profiler.stop(info)\<close> of the external tracing library, which
  attaches the metadata mapping to the active trace; here it records the mapping.
\<close>

definition span_stop :: "stop_info \<Rightarrow> backend \<Rightarrow> exn option \<times> backend" where
  "span_stop d s = (None, s\<lparr>spans := spans s @ [Span_stop_info d]\<rparr>)"

text \<open>
  Modelled from the spec: process-level memory sampling, "a single resident set size"
  reading that may fail; here it fails when the size is above \<open>limit\<close> bytes.
\<close>

definition rss_reading :: "nat \<Rightarrow> backend \<Rightarrow> exn + nat" where
  "rss_reading limit s =
     (if rss s \<le> limit then Inr (rss s) else Inl (Exception ''AccessDenied''))"

text \<open>
  The recording environment: \<open>psutil.Process()\<close> finds the current process. In
  \<open>no_process_env\<close> it does not (a platform where psutil cannot read the process's
  entry) and raises \<open>NoSuchProcess\<close>.
\<close>

definition span_env :: "config \<Rightarrow> nat \<Rightarrow> ('a, backend, 'r) env" where
  "span_env c limit =
     \<lparr>CONF = c, psutil_Process = (\<lambda>s. None), memory_info = rss_reading limit,
      profiler_stop = span_stop, profiler_trace = span_trace\<rparr>"

definition no_process_env :: "config \<Rightarrow> nat \<Rightarrow> ('a, backend, 'r) env" where
  "no_process_env c limit =
     \<lparr>CONF = c, psutil_Process = (\<lambda>s. Some (NoSuchProcess ''process PID not found'')),
      memory_info = rss_reading limit, profiler_stop = span_stop,
      profiler_trace = span_trace\<rparr>"

text \<open>
  Two target callables: \<open>op_a\<close> returns its argument plus one and leaves the process
  at 140 MB; \<open>op_boom\<close> raises. \<open>boot\<close> is a process at 100 MB with no span yet.
\<close>

definition op_a :: "(int, backend, int) callable" where
  "op_a x s = (Inr (x + 1), s\<lparr>rss := 140 * 1024 * 1024\<rparr>)"

definition op_boom :: "(int, backend, int) callable" where
  "op_boom x s = (Inl (Exception ''boom''), s)"

definition boot :: backend where
  "boot = \<lparr>rss = 100 * 1024 * 1024, spans = []\<rparr>"

section \<open>DecisionEngineService\<close>

text \<open>
  Modelled from the spec: a subservice (the scheduling service, the continuous audit
  handler), whose classes are not part of these sources. The spec says that it is
  stateful, is constructed on first access, and that \<open>start\<close> brings it to a running
  state or fails; \<open>r\<close> is the outcome of that one call.
\<close>

record subservice =
  running :: bool

definition subservice_new :: subservice where
  "subservice_new = \<lparr>running = False\<rparr>"

definition subservice_start :: "exn option \<Rightarrow> subservice \<Rightarrow> (exn + unit) \<times> subservice" where
  "subservice_start r s =
     (case r of Some e \<Rightarrow> (Inl e, s) | None \<Rightarrow> (Inr (), s\<lparr>running := True\<rparr>))"

record DecisionEngineService =
  bg_scheduler_slot :: "subservice option"
  continuous_handler_slot :: "subservice option"

definition DecisionEngineService_init :: DecisionEngineService where
  "DecisionEngineService_init = \<lparr>bg_scheduler_slot = None, continuous_handler_slot = None\<rparr>"

text \<open>The two properties: construct the subservice on first access, then return it.\<close>

definition bg_scheduler :: "DecisionEngineService \<Rightarrow> subservice \<times> DecisionEngineService" where
  "bg_scheduler self =
     (case bg_scheduler_slot self of
        None \<Rightarrow> (subservice_new, self\<lparr>bg_scheduler_slot := Some subservice_new\<rparr>)
      | Some b \<Rightarrow> (b, self))"

definition continuous_handler :: "DecisionEngineService \<Rightarrow> subservice \<times> DecisionEngineService" where
  "continuous_handler self =
     (case continuous_handler_slot self of
        None \<Rightarrow> (subservice_new, self\<lparr>continuous_handler_slot := Some subservice_new\<rparr>)
      | Some h \<Rightarrow> (h, self))"

text \<open>
  The collaborators of \<open>start\<close>, each given by the outcome of its call: the base class's
  \<open>start\<close>, \<open>osprofiler_initializer.init_from_conf\<close> with its arguments, and the
  \<open>start\<close> of the two subservices. \<open>None\<close> is a normal return.
\<close>

record service_env =
  service_CONF :: config
  super_start :: "exn option"
  init_from_conf :: "exn option"
  scheduler_start :: "exn option"
  handler_start :: "exn option"

datatype service_call =
    Super_start
  | Init_from_conf
  | LOG_info_service string
  | LOG_warning_service string exn
  | Bg_scheduler_start
  | Continuous_handler_start

text \<open>Lines 63 to 76 of \<open>start\<close>: the calls made to initialise the profiler.\<close>

definition init_profiler :: "service_env \<Rightarrow> service_call list" where
  "init_profiler E =
     (if enabled (service_CONF E) then
        (case init_from_conf E of
           None \<Rightarrow>
             [Init_from_conf,
              LOG_info_service ''OSProfiler initialized successfully for decision engine'']
         | Some e \<Rightarrow>
             [Init_from_conf,
              LOG_warning_service
                ''Failed to initialize osprofiler: %s. Profiling will be disabled.'' e])
      else [])"

text \<open>
  \<open>start\<close>: the outcome, the service afterwards and the calls made, in order. An
  exception of the base class or of a subservice ends the method where it is raised.
\<close>

definition start ::
  "service_env \<Rightarrow> DecisionEngineService \<Rightarrow>
   (exn + unit) \<times> DecisionEngineService \<times> service_call list" where
  "start E self =
     (case super_start E of
        Some e \<Rightarrow> (Inl e, self, [Super_start])
      | None \<Rightarrow>
          (let log1 = [Super_start] @ init_profiler E;
               (sched, self1) = bg_scheduler self
           in case subservice_start (scheduler_start E) sched of
                (Inl e, sched1) \<Rightarrow>
                  (Inl e, self1\<lparr>bg_scheduler_slot := Some sched1\<rparr>,
                   log1 @ [Bg_scheduler_start])
              | (Inr u, sched1) \<Rightarrow>
                  (let self2 = self1\<lparr>bg_scheduler_slot := Some sched1\<rparr>;
                       (handler, self3) = continuous_handler self2
                   in case subservice_start (handler_start E) handler of
                        (Inl e, handler1) \<Rightarrow>
                          (Inl e, self3\<lparr>continuous_handler_slot := Some handler1\<rparr>,
                           log1 @ [Bg_scheduler_start, Continuous_handler_start])
                      | (Inr u, handler1) \<Rightarrow>
                          (Inr (), self3\<lparr>continuous_handler_slot := Some handler1\<rparr>,
                           log1 @ [Bg_scheduler_start, Continuous_handler_start]))))"

section \<open>What one invocation of the wrapper does\<close>

lemma published_append: "published (xs @ ys) = published xs @ published ys"
  by (induction xs rule: published.induct) simp_all

lemma proc_fresh: "proc (fresh s) = s"
  by (simp add: fresh_def)

text \<open>The constructor: it fails exactly when \<open>psutil.Process()\<close> does.\<close>

lemma init_constructed:
  "psutil_Process E s = None \<Longrightarrow>
   MemoryTracker_init E name aid s =
     Inr \<lparr>trace_name = name, tracker_audit_id = aid, mem_baseline = None, mem_peak = None\<rparr>"
  by (simp add: MemoryTracker_init_def)

lemma init_failed:
  "psutil_Process E s = Some e \<Longrightarrow> MemoryTracker_init E name aid s = Inl e"
  by (simp add: MemoryTracker_init_def)

lemma init_Inr_iff:
  "(MemoryTracker_init E name aid s = Inr t0) =
     (psutil_Process E s = None \<and>
      t0 = \<lparr>trace_name = name, tracker_audit_id = aid, mem_baseline = None, mem_peak = None\<rparr>)"
  by (cases "psutil_Process E s") (auto simp add: MemoryTracker_init_def)

lemma enter_proc: "proc (snd (MemoryTracker_enter E t w)) = proc w"
  by (simp add: MemoryTracker_enter_def split: sum.splits)

lemma enter_calls:
  "calls (snd (MemoryTracker_enter E t w)) = calls w @
     (if trace_memory_usage (CONF E) then
        (case memory_info E (proc w) of
           Inr b \<Rightarrow> [Memory_info]
         | Inl e \<Rightarrow> [Memory_info, LOG_warning ''Failed to capture baseline memory: %s'' e])
      else [])"
  by (simp add: MemoryTracker_enter_def split: sum.splits)

lemma enter_baseline:
  "mem_baseline (fst (MemoryTracker_enter E t w)) =
     (if trace_memory_usage (CONF E) then
        (case memory_info E (proc w) of
           Inr b \<Rightarrow> Some (of_nat b / 1024 / 1024)
         | Inl e \<Rightarrow> None)
      else mem_baseline t)"
  by (simp add: MemoryTracker_enter_def split: sum.splits)

lemma enter_audit_id:
  "tracker_audit_id (fst (MemoryTracker_enter E t w)) = tracker_audit_id t"
  by (simp add: MemoryTracker_enter_def split: sum.splits)

lemma enter_peak:
  "mem_peak (fst (MemoryTracker_enter E t w)) = mem_peak t"
  by (simp add: MemoryTracker_enter_def split: sum.splits)

text \<open>\<open>__exit__\<close> returns \<open>False\<close> on every path.\<close>

lemma exit_no_suppress: "fst (MemoryTracker_exit E t w) = False"
  by (simp add: MemoryTracker_exit_def Let_def split: sum.splits prod.splits option.splits)

lemma exit_published:
  "published (calls (snd (snd (MemoryTracker_exit E t w)))) = published (calls w) @
     (if trace_memory_usage (CONF E) \<and> mem_baseline t \<noteq> None then
        (case memory_info E (proc w) of
           Inr p \<Rightarrow>
             [\<lparr>memory_baseline_mb = the (mem_baseline t),
               memory_peak_mb = of_nat p / 1024 / 1024,
               memory_delta_mb = of_nat p / 1024 / 1024 - the (mem_baseline t),
               audit_id = (if py_truthy (tracker_audit_id t)
                           then Some (py_str (tracker_audit_id t)) else None)\<rparr>]
         | Inl e \<Rightarrow> [])
      else [])"
  by (simp add: MemoryTracker_exit_def Let_def published_append
           split: sum.splits prod.splits option.splits)

text \<open>
  When the constructor raises, the wrapper raises the same exception; the traced function
  is not called and the world is as it was.
\<close>

lemma twm_not_constructed:
  "psutil_Process E (proc w) = Some e \<Longrightarrow>
   trace_with_memory E name info func args w = (Inl e, w)"
  by (simp add: trace_with_memory_def init_failed)

text \<open>
  When the tracker is constructed, the outcome of the wrapper is the outcome of the traced
  function, called on the arguments and on the process state the wrapper was entered with.
\<close>

lemma twm_fst:
  assumes "psutil_Process E (proc w) = None"
  shows "fst (trace_with_memory E name info func args w) =
     (case fst (profiler_trace E name info func args (proc w)) of
        Inl e \<Rightarrow> Inl e | Inr v \<Rightarrow> Inr (Some v))"
proof -
  let ?t0 = "\<lparr>trace_name = name, tracker_audit_id = wrapper_audit_id info args,
               mem_baseline = None, mem_peak = None\<rparr>"
  have i: "MemoryTracker_init E name (wrapper_audit_id info args) (proc w) = Inr ?t0"
    using assms by (rule init_constructed)
  obtain t1 w1 where e: "MemoryTracker_enter E ?t0 w = (t1, w1)"
    by (cases "MemoryTracker_enter E ?t0 w")
  have p: "proc w1 = proc w"
    using enter_proc[of E ?t0 w] e by simp
  obtain res s2 where r: "profiler_trace E name info func args (proc w) = (res, s2)"
    by (cases "profiler_trace E name info func args (proc w)")
  obtain sup t2 w3 where x: "MemoryTracker_exit E t1 (w1\<lparr>proc := s2\<rparr>) = (sup, t2, w3)"
    by (cases "MemoryTracker_exit E t1 (w1\<lparr>proc := s2\<rparr>)")
  have "sup = False"
    using exit_no_suppress[of E t1 "w1\<lparr>proc := s2\<rparr>"] x by simp
  then show ?thesis
    by (simp add: trace_with_memory_def i e p r x split: sum.splits)
qed

lemma twm_snd:
  assumes "MemoryTracker_init E name (wrapper_audit_id info args) (proc w) = Inr t0"
  shows "snd (trace_with_memory E name info func args w) =
     snd (snd (MemoryTracker_exit E
        (fst (MemoryTracker_enter E t0 w))
        ((snd (MemoryTracker_enter E t0 w))
           \<lparr>proc := snd (profiler_trace E name info func args (proc w))\<rparr>)))"
proof -
  obtain t1 w1 where e: "MemoryTracker_enter E t0 w = (t1, w1)"
    by (cases "MemoryTracker_enter E t0 w")
  have p: "proc w1 = proc w"
    using enter_proc[of E t0 w] e by simp
  obtain res s2 where r: "profiler_trace E name info func args (proc w) = (res, s2)"
    by (cases "profiler_trace E name info func args (proc w)")
  obtain sup t2 w3 where x: "MemoryTracker_exit E t1 (w1\<lparr>proc := s2\<rparr>) = (sup, t2, w3)"
    by (cases "MemoryTracker_exit E t1 (w1\<lparr>proc := s2\<rparr>)")
  show ?thesis
    by (simp add: trace_with_memory_def assms e p r x)
qed

text \<open>The dicts one invocation hands to \<open>profiler.stop\<close>, starting from an empty log.\<close>

lemma twm_published:
  "published (calls (snd (trace_with_memory E name info func args (fresh s)))) =
     (if trace_memory_usage (CONF E) \<and> psutil_Process E s = None then
        (case memory_info E s of
           Inl e \<Rightarrow> []
         | Inr b \<Rightarrow>
             (case memory_info E (snd (profiler_trace E name info func args s)) of
                Inl e \<Rightarrow> []
              | Inr p \<Rightarrow>
                  [\<lparr>memory_baseline_mb = of_nat b / 1024 / 1024,
                    memory_peak_mb = of_nat p / 1024 / 1024,
                    memory_delta_mb = of_nat p / 1024 / 1024 - of_nat b / 1024 / 1024,
                    audit_id = (if py_truthy (wrapper_audit_id info args)
                                then Some (py_str (wrapper_audit_id info args)) else None)\<rparr>]))
      else [])"
proof (cases "psutil_Process E s")
  case (Some e)
  then show ?thesis
    by (simp add: twm_not_constructed proc_fresh) (simp add: fresh_def)
next
  case None
  then have i: "MemoryTracker_init E name (wrapper_audit_id info args)
        (proc \<lparr>proc = s, calls = []\<rparr>) =
      Inr \<lparr>trace_name = name, tracker_audit_id = wrapper_audit_id info args,
           mem_baseline = None, mem_peak = None\<rparr>"
    by (simp add: init_constructed)
  show ?thesis
    using None
    by (simp add: twm_snd [OF i] exit_published enter_calls enter_baseline enter_audit_id
          published_append fresh_def split: sum.splits)
qed

lemma twm_calls_off:
  "\<not> trace_memory_usage (CONF E) \<Longrightarrow>
     calls (snd (trace_with_memory E name info func args w)) = calls w"
proof (cases "psutil_Process E (proc w)")
  case (Some e)
  then show ?thesis by (simp add: twm_not_constructed)
next
  case None
  assume off: "\<not> trace_memory_usage (CONF E)"
  have i: "MemoryTracker_init E name (wrapper_audit_id info args) (proc w) =
      Inr \<lparr>trace_name = name, tracker_audit_id = wrapper_audit_id info args,
           mem_baseline = None, mem_peak = None\<rparr>"
    using None by (rule init_constructed)
  show ?thesis
    using off by (simp add: twm_snd [OF i] MemoryTracker_enter_def MemoryTracker_exit_def)
qed

text \<open>The four paths through \<open>__exit__\<close>.\<close>

lemma exit_flag_off:
  "\<not> trace_memory_usage (CONF E) \<Longrightarrow> MemoryTracker_exit E t w = (False, t, w)"
  by (simp add: MemoryTracker_exit_def)

lemma exit_no_baseline:
  "mem_baseline t = None \<Longrightarrow> MemoryTracker_exit E t w = (False, t, w)"
  by (simp add: MemoryTracker_exit_def)

lemma exit_peak_failed:
  "trace_memory_usage (CONF E) \<Longrightarrow> mem_baseline t = Some b \<Longrightarrow>
   memory_info E (proc w) = Inl e \<Longrightarrow>
   MemoryTracker_exit E t w =
     (False, t, w\<lparr>calls := calls w @
        [Memory_info, LOG_warning ''Failed to capture peak memory: %s'' e]\<rparr>)"
  by (simp add: MemoryTracker_exit_def)

lemma exit_peak_sampled:
  "trace_memory_usage (CONF E) \<Longrightarrow> mem_baseline t = Some b \<Longrightarrow>
   memory_info E (proc w) = Inr p \<Longrightarrow>
   fst (snd (MemoryTracker_exit E t w)) = t\<lparr>mem_peak := Some (of_nat p / 1024 / 1024)\<rparr>"
  by (simp add: MemoryTracker_exit_def Let_def split: prod.splits option.splits)

lemma exit_peak:
  assumes "mem_peak t = None"
  shows "(mem_peak (fst (snd (MemoryTracker_exit E t w))) \<noteq> None) =
     (trace_memory_usage (CONF E) \<and> mem_baseline t \<noteq> None \<and>
      (\<exists>p. memory_info E (proc w) = Inr p))"
proof (cases "trace_memory_usage (CONF E)")
  case False
  then show ?thesis using assms by (simp add: exit_flag_off)
next
  case flag: True
  show ?thesis
  proof (cases "mem_baseline t")
    case None
    then show ?thesis using assms by (simp add: exit_no_baseline)
  next
    case (Some b)
    show ?thesis
    proof (cases "memory_info E (proc w)")
      case (Inl e)
      then show ?thesis using assms flag Some by (simp add: exit_peak_failed)
    next
      case (Inr p)
      then show ?thesis using assms flag Some by (simp add: exit_peak_sampled)
    qed
  qed
qed

text \<open>
  Of the configuration, the constructor reads nothing and \<open>__enter__\<close>, \<open>__exit__\<close> and
  the wrapper read \<open>trace_memory_usage\<close> and nothing else.
\<close>

lemma init_reads_no_option:
  "MemoryTracker_init (E\<lparr>CONF := c\<rparr>) name aid s = MemoryTracker_init E name aid s"
  by (simp add: MemoryTracker_init_def)

lemma enter_reads_trace_memory_usage_only:
  "trace_memory_usage c = trace_memory_usage (CONF E) \<Longrightarrow>
     MemoryTracker_enter (E\<lparr>CONF := c\<rparr>) t w = MemoryTracker_enter E t w"
  by (simp add: MemoryTracker_enter_def)

lemma exit_reads_trace_memory_usage_only:
  "trace_memory_usage c = trace_memory_usage (CONF E) \<Longrightarrow>
     MemoryTracker_exit (E\<lparr>CONF := c\<rparr>) t w = MemoryTracker_exit E t w"
  by (cases "memory_info E (proc w)") (auto simp add: MemoryTracker_exit_def Let_def)

lemma twm_reads_trace_memory_usage_only:
  "trace_memory_usage c = trace_memory_usage (CONF E) \<Longrightarrow>
     trace_with_memory (E\<lparr>CONF := c\<rparr>) name info func args w =
     trace_with_memory E name info func args w"
  by (cases "MemoryTracker_init E name (wrapper_audit_id info args) (proc w)")
     (simp_all add: trace_with_memory_def init_reads_no_option
        enter_reads_trace_memory_usage_only exit_reads_trace_memory_usage_only)

text \<open>Every dict an invocation publishes carries the wrapper's \<open>audit_id\<close>, as a str or null.\<close>

lemma twm_published_audit_id:
  "\<forall>d \<in> set (published (calls (snd (trace_with_memory E name info func args (fresh s))))).
     audit_id d = (if py_truthy (wrapper_audit_id info args)
                   then Some (py_str (wrapper_audit_id info args)) else None)"
  by (simp only: twm_published)
     (cases "trace_memory_usage (CONF E)"; cases "psutil_Process E s";
      cases "memory_info E s";
      cases "memory_info E (snd (profiler_trace E name info func args s))"; simp)

text \<open>
  With the tracker constructed and a tracing decorator that hands the target's outcome on,
  the wrapper returns what the target returns and raises what it raises.
\<close>

lemma twm_transparent_when_constructed:
  assumes "psutil_Process E (proc w) = None"
    and "fst (profiler_trace E name info func args (proc w)) = fst (func args (proc w))"
  shows "fst (trace_with_memory E name info func args w) =
           (case fst (func args (proc w)) of Inl e \<Rightarrow> Inl e | Inr v \<Rightarrow> Inr (Some v))"
  using assms by (simp add: twm_fst)

text \<open>
  With the tracker constructed, an exception of the callable \<open>info\<close> is swallowed: the
  \<open>audit_id\<close> stays \<open>None\<close>, the traced operation is called on the same arguments and
  process state, and every dict published carries a null \<open>audit_id\<close>.
\<close>

lemma info_failure_swallowed_when_constructed:
  assumes "g args = Inl e" and "psutil_Process E s = None"
  shows "wrapper_audit_id (InfoFn g) args = PNone \<and>
         fst (trace_with_memory E name (InfoFn g) func args (fresh s)) =
           (case fst (profiler_trace E name (InfoFn g) func args s) of
              Inl x \<Rightarrow> Inl x | Inr v \<Rightarrow> Inr (Some v)) \<and>
         (\<forall>d \<in> set (published (calls (snd
              (trace_with_memory E name (InfoFn g) func args (fresh s))))).
            audit_id d = None)"
proof -
  have none: "wrapper_audit_id (InfoFn g) args = PNone"
    using assms(1) by (simp add: wrapper_audit_id_def)
  have "\<forall>d \<in> set (published (calls (snd
            (trace_with_memory E name (InfoFn g) func args (fresh s))))).
          audit_id d = None"
    using twm_published_audit_id [of E name "InfoFn g" func args s]
    by (simp add: none)
  then show ?thesis
    using assms(2) by (simp add: none twm_fst proc_fresh)
qed

text \<open>The outcome of \<open>start\<close> and the service it leaves do not depend on \<open>init_from_conf\<close>.\<close>

lemma start_ignores_init_outcome:
  "fst (start (E\<lparr>init_from_conf := r\<rparr>) self) = fst (start E self) \<and>
   fst (snd (start (E\<lparr>init_from_conf := r\<rparr>) self)) = fst (snd (start E self))"
  by (simp add: start_def Let_def split: option.splits prod.splits sum.splits)

section \<open>The claims\<close>

text \<open>
  C1 (the code departs from the claim). Transparency asks that the wrapper return what
  the target returns, whether or not instrumentation is enabled. The wrapper guards the
  \<open>info\<close> call and both memory readings with \<open>try\<close>, but not the constructor: when
  \<open>psutil.Process()\<close> raises, the wrapper raises that exception and never calls the
  target, with the defaults and with every option off alike. Here the target \<open>op_a\<close>
  would return 2.
\<close>

theorem wrapper_raises_when_process_handle_fails:
  "fst (op_a 1 boot) = Inr 2 \<and>
   trace_with_memory (no_process_env (profiler_defaults True) (200 * 1024 * 1024))
      ''op-a'' NoInfo op_a 1 (fresh boot) =
     (Inl (NoSuchProcess ''process PID not found''), fresh boot) \<and>
   trace_with_memory
      (no_process_env
         \<lparr>enabled = False, trace_audit_execution = False, trace_memory_usage = False\<rparr>
         (200 * 1024 * 1024))
      ''op-a'' NoInfo op_a 1 (fresh boot) =
     (Inl (NoSuchProcess ''process PID not found''), fresh boot)"
  by (simp add: twm_not_constructed no_process_env_def proc_fresh op_a_def)

text \<open>
  C6. When \<open>trace_memory_usage\<close> is false, an invocation of the wrapper makes no call to
  \<open>memory_info\<close>, to \<open>profiler.stop\<close> or to the log at all: the call log is unchanged, so
  from an empty log the number of samples is 0 and no memory dict is published.
\<close>

theorem trace_memory_usage_off_no_sampling:
  assumes "\<not> trace_memory_usage (CONF E)"
  shows "calls (snd (trace_with_memory E name info func args w)) = calls w \<and>
         samples (calls (snd (trace_with_memory E name info func args (fresh s)))) = 0 \<and>
         published (calls (snd (trace_with_memory E name info func args (fresh s)))) = []"
  using assms by (simp add: twm_calls_off fresh_def)

theorem trace_memory_usage_off_no_sampling_witness:
  "\<not> trace_memory_usage (CONF (span_env
        \<lparr>enabled = True, trace_audit_execution = True, trace_memory_usage = False\<rparr>
        (200 * 1024 * 1024) :: (int, backend, int) env)) \<and>
   samples (calls (snd (trace_with_memory
     (span_env \<lparr>enabled = True, trace_audit_execution = True, trace_memory_usage = False\<rparr>
        (200 * 1024 * 1024)) ''op-a'' NoInfo op_a 1 (fresh boot)))) = 0 \<and>
   published (calls (snd (trace_with_memory
     (span_env \<lparr>enabled = True, trace_audit_execution = True, trace_memory_usage = False\<rparr>
        (200 * 1024 * 1024)) ''op-a'' NoInfo op_a 1 (fresh boot)))) = []"
  using trace_memory_usage_off_no_sampling
          [of "span_env \<lparr>enabled = True, trace_audit_execution = True,
                 trace_memory_usage = False\<rparr> (200 * 1024 * 1024)"
              "''op-a''" NoInfo op_a 1 "fresh boot" boot]
  by (simp add: span_env_def fresh_def)

text \<open>
  C8. When the baseline and the peak reading both succeed (\<open>trace_memory_usage\<close> is set
  and the tracker holds its process handle), the invocation publishes exactly one dict;
  its baseline and peak are the two readings in MB and its \<open>memory_delta_mb\<close> is
  \<open>memory_peak_mb - memory_baseline_mb\<close>.
\<close>

theorem published_delta_is_peak_minus_baseline:
  assumes "trace_memory_usage (CONF E)"
    and "psutil_Process E s = None"
    and "memory_info E s = Inr b"
    and "memory_info E (snd (profiler_trace E name info func args s)) = Inr p"
  shows "\<exists>d. published (calls (snd (trace_with_memory E name info func args (fresh s)))) = [d] \<and>
             memory_baseline_mb d = of_nat b / 1024 / 1024 \<and>
             memory_peak_mb d = of_nat p / 1024 / 1024 \<and>
             memory_delta_mb d = memory_peak_mb d - memory_baseline_mb d"
  using assms by (simp add: twm_published)

theorem published_delta_is_peak_minus_baseline_witness:
  "published (calls (snd (trace_with_memory
      (span_env (profiler_defaults True) (200 * 1024 * 1024))
      ''op-a'' NoInfo op_a 1 (fresh boot)))) =
     [\<lparr>memory_baseline_mb = 100, memory_peak_mb = 140, memory_delta_mb = 40,
       audit_id = None\<rparr>]"
  using published_delta_is_peak_minus_baseline
          [of "span_env (profiler_defaults True) (200 * 1024 * 1024)" boot
              "100 * 1024 * 1024" "''op-a''" NoInfo op_a 1 "140 * 1024 * 1024"]
  by (simp add: twm_published span_env_def profiler_defaults_def rss_reading_def
        span_trace_def op_a_def boot_def wrapper_audit_id_def)

text \<open>
  C2 (the code departs from the claim). The option \<open>trace_audit_execution\<close> is registered
  with a help text that promises to switch the trace points of audit execution, but the
  wrapper never reads it: with the flag false and the other options at their defaults, a
  span is still opened and closed around the target, and the memory dict is published.
\<close>

theorem span_opened_with_trace_audit_execution_off:
  "spans (proc (snd (trace_with_memory
      (span_env \<lparr>enabled = True, trace_audit_execution = False, trace_memory_usage = True\<rparr>
         (200 * 1024 * 1024))
      ''op-a'' NoInfo op_a 1 (fresh boot)))) =
     [Span_start ''op-a'', Span_stop,
      Span_stop_info \<lparr>memory_baseline_mb = 100, memory_peak_mb = 140, memory_delta_mb = 40,
        audit_id = None\<rparr>]"
  by (simp add: trace_with_memory_def MemoryTracker_enter_def MemoryTracker_exit_def
        MemoryTracker_init_def span_env_def rss_reading_def span_trace_def span_stop_def
        op_a_def boot_def fresh_def wrapper_audit_id_def Let_def)

text \<open>
  C3, as amended. When \<open>profiler.enabled\<close> is false and the tracker is constructed, the
  wrapper returns what the plain callable returns (the tracing decorator handing the
  outcome on), but memory sampling and publication are gated by \<open>trace_memory_usage\<close>
  alone: the invocation behaves exactly as with \<open>enabled\<close> true, and the tracker hands
  the memory dict to \<open>profiler.stop\<close> once when \<open>trace_memory_usage\<close> is set and both
  samples succeed, and not at all otherwise. The count is of the tracker's own
  publication calls; how the tracing decorator closes its span is not part of it.
\<close>

theorem publication_gated_by_trace_memory_usage_only:
  assumes "\<not> enabled (CONF E)"
    and "psutil_Process E s = None"
    and "fst (profiler_trace E name info func args s) = fst (func args s)"
  shows "fst (trace_with_memory E name info func args (fresh s)) =
           (case fst (func args s) of Inl e \<Rightarrow> Inl e | Inr v \<Rightarrow> Inr (Some v)) \<and>
         trace_with_memory (E\<lparr>CONF := (CONF E)\<lparr>enabled := True\<rparr>\<rparr>) name info func args (fresh s) =
           trace_with_memory E name info func args (fresh s) \<and>
         length (published (calls (snd (trace_with_memory E name info func args (fresh s))))) =
           (if trace_memory_usage (CONF E) \<and> (\<exists>b. memory_info E s = Inr b) \<and>
               (\<exists>p. memory_info E (snd (profiler_trace E name info func args s)) = Inr p)
            then 1 else 0)"
  using assms
  by (simp add: twm_fst twm_reads_trace_memory_usage_only twm_published proc_fresh
        split: sum.splits)

theorem publication_gated_by_trace_memory_usage_only_witness:
  "\<not> enabled (CONF (span_env (profiler_defaults False) (200 * 1024 * 1024)
       :: (int, backend, int) env)) \<and>
   psutil_Process (span_env (profiler_defaults False) (200 * 1024 * 1024)
       :: (int, backend, int) env) boot = None \<and>
   fst (span_trace ''op-a'' NoInfo op_a 1 boot) = fst (op_a 1 boot) \<and>
   fst (trace_with_memory (span_env (profiler_defaults False) (200 * 1024 * 1024))
          ''op-a'' NoInfo op_a 1 (fresh boot)) = Inr (Some 2) \<and>
   length (published (calls (snd (trace_with_memory
      (span_env (profiler_defaults False) (200 * 1024 * 1024))
      ''op-a'' NoInfo op_a 1 (fresh boot))))) = 1"
  using publication_gated_by_trace_memory_usage_only
          [of "span_env (profiler_defaults False) (200 * 1024 * 1024)" boot
              "''op-a''" NoInfo op_a 1]
  by (simp add: span_env_def profiler_defaults_def rss_reading_def
        span_trace_def op_a_def boot_def)

text \<open>
  C3 as stated fails: with \<open>profiler.enabled\<close> false and the other options at their
  defaults, the scenario of the spec (function \<open>op-a\<close>, argument 1) returns the plain
  result, yet the tracker samples memory twice and calls \<open>profiler.stop\<close> with the
  memory dict.
\<close>

theorem disabled_profiler_still_publishes:
  "\<not> enabled (profiler_defaults False) \<and>
   \<not> is_profiling_enabled (profiler_defaults False) True \<and>
   fst (trace_with_memory (span_env (profiler_defaults False) (200 * 1024 * 1024))
          ''op-a'' NoInfo op_a 1 (fresh boot)) = Inr (Some 2) \<and>
   calls (snd (trace_with_memory (span_env (profiler_defaults False) (200 * 1024 * 1024))
          ''op-a'' NoInfo op_a 1 (fresh boot))) =
     [Memory_info, Memory_info,
      Profiler_stop \<lparr>memory_baseline_mb = 100, memory_peak_mb = 140, memory_delta_mb = 40,
        audit_id = None\<rparr>]"
  by (simp add: trace_with_memory_def MemoryTracker_enter_def MemoryTracker_exit_def
        MemoryTracker_init_def span_env_def rss_reading_def span_trace_def span_stop_def
        op_a_def boot_def fresh_def wrapper_audit_id_def profiler_defaults_def
        is_profiling_enabled_def Let_def)

text \<open>
  C4, as amended. In one invocation (\<open>t0\<close> the tracker as constructed, \<open>t1\<close> after
  \<open>__enter__\<close>, \<open>t2\<close> after \<open>__exit__\<close>, \<open>s2\<close> the process after the traced call) the
  peak is populated if and only
  if the baseline was populated and the peak sample succeeds; a dict is published if and
  only if the peak is populated; so with no baseline there is no peak and nothing is
  published; and a published dict carries the tracker's baseline and peak.
\<close>

theorem peak_published_iff_baseline_and_peak_sample:
  assumes "MemoryTracker_init E name (wrapper_audit_id info args) s = Inr t0"
  shows
  "let t1 = fst (MemoryTracker_enter E t0 (fresh s));
       w1 = snd (MemoryTracker_enter E t0 (fresh s));
       s2 = snd (profiler_trace E name info func args s);
       t2 = fst (snd (MemoryTracker_exit E t1 (w1\<lparr>proc := s2\<rparr>)));
       pub = published (calls (snd (trace_with_memory E name info func args (fresh s))))
   in ((mem_peak t2 \<noteq> None) = (mem_baseline t1 \<noteq> None \<and> (\<exists>p. memory_info E s2 = Inr p))) \<and>
      ((pub \<noteq> []) = (mem_peak t2 \<noteq> None)) \<and>
      (mem_baseline t1 = None \<longrightarrow> mem_peak t2 = None \<and> pub = []) \<and>
      (\<forall>d \<in> set pub. mem_baseline t1 = Some (memory_baseline_mb d) \<and>
                       mem_peak t2 = Some (memory_peak_mb d))"
proof -
  from assms have ok: "psutil_Process E s = None"
    and b0: "mem_baseline t0 = None" and p0: "mem_peak t0 = None"
    by (simp_all add: init_Inr_iff)
  show ?thesis
  proof (cases "trace_memory_usage (CONF E)")
    case False
    then show ?thesis
      by (simp add: Let_def twm_published enter_baseline enter_peak exit_flag_off b0 p0)
  next
    case flag: True
    show ?thesis
    proof (cases "memory_info E s")
      case (Inl e)
      then show ?thesis using flag
        by (simp add: Let_def twm_published enter_baseline enter_peak exit_no_baseline
              proc_fresh ok p0)
    next
      case base: (Inr b)
      show ?thesis
      proof (cases "memory_info E (snd (profiler_trace E name info func args s))")
        case (Inl e)
        then show ?thesis using flag base
          by (simp add: Let_def twm_published enter_baseline enter_peak
                exit_peak_failed [where b = "of_nat b / 1024 / 1024"] proc_fresh ok p0)
      next
        case (Inr p)
        then show ?thesis using flag base
          by (simp add: Let_def twm_published enter_baseline enter_peak
                exit_peak_sampled [where b = "of_nat b / 1024 / 1024"] proc_fresh ok p0
                del: not_None_eq)
      qed
    qed
  qed
qed

theorem peak_published_iff_baseline_and_peak_sample_witness:
  "MemoryTracker_init (span_env (profiler_defaults True) 0 :: (int, backend, int) env)
      ''op-a'' (wrapper_audit_id NoInfo (1::int)) boot =
     Inr \<lparr>trace_name = ''op-a'', tracker_audit_id = PNone, mem_baseline = None,
          mem_peak = None\<rparr> \<and>
   mem_baseline (fst (MemoryTracker_enter
      (span_env (profiler_defaults True) 0 :: (int, backend, int) env)
      \<lparr>trace_name = ''op-a'', tracker_audit_id = PNone, mem_baseline = None,
        mem_peak = None\<rparr> (fresh boot))) = None \<and>
   published (calls (snd (trace_with_memory (span_env (profiler_defaults True) 0)
      ''op-a'' NoInfo op_a 1 (fresh boot)))) = [] \<and>
   mem_baseline (fst (MemoryTracker_enter
      (span_env (profiler_defaults True) (200 * 1024 * 1024) :: (int, backend, int) env)
      \<lparr>trace_name = ''op-a'', tracker_audit_id = PNone, mem_baseline = None,
        mem_peak = None\<rparr> (fresh boot))) = Some 100 \<and>
   published (calls (snd (trace_with_memory
      (span_env (profiler_defaults True) (200 * 1024 * 1024))
      ''op-a'' NoInfo op_a 1 (fresh boot)))) \<noteq> []"
  using peak_published_iff_baseline_and_peak_sample
          [of "span_env (profiler_defaults True) 0" "''op-a''" NoInfo 1 boot
              "\<lparr>trace_name = ''op-a'', tracker_audit_id = PNone, mem_baseline = None,
                mem_peak = None\<rparr>" op_a]
        peak_published_iff_baseline_and_peak_sample
          [of "span_env (profiler_defaults True) (200 * 1024 * 1024)" "''op-a''" NoInfo 1
              boot
              "\<lparr>trace_name = ''op-a'', tracker_audit_id = PNone, mem_baseline = None,
                mem_peak = None\<rparr>" op_a]
  by (simp add: Let_def init_Inr_iff wrapper_audit_id_def enter_baseline exit_peak
        enter_peak proc_fresh span_env_def profiler_defaults_def rss_reading_def boot_def
        span_trace_def op_a_def)

text \<open>
  C4 as stated fails in the "if" direction: when the baseline sample succeeds (100 MB)
  and the peak sample raises, the baseline is populated but nothing is published; the
  failure is logged instead.
\<close>

theorem baseline_without_peak:
  "MemoryTracker_init
      (span_env (profiler_defaults True) (120 * 1024 * 1024) :: (int, backend, int) env)
      ''op-a'' PNone boot =
     Inr \<lparr>trace_name = ''op-a'', tracker_audit_id = PNone, mem_baseline = None,
          mem_peak = None\<rparr> \<and>
   mem_baseline (fst (MemoryTracker_enter
      (span_env (profiler_defaults True) (120 * 1024 * 1024) :: (int, backend, int) env)
      \<lparr>trace_name = ''op-a'', tracker_audit_id = PNone, mem_baseline = None,
        mem_peak = None\<rparr> (fresh boot))) = Some 100 \<and>
   calls (snd (trace_with_memory (span_env (profiler_defaults True) (120 * 1024 * 1024))
      ''op-a'' NoInfo op_a 1 (fresh boot))) =
     [Memory_info, Memory_info,
      LOG_warning ''Failed to capture peak memory: %s'' (Exception ''AccessDenied'')] \<and>
   published (calls (snd (trace_with_memory
      (span_env (profiler_defaults True) (120 * 1024 * 1024))
      ''op-a'' NoInfo op_a 1 (fresh boot)))) = []"
  by (simp add: trace_with_memory_def MemoryTracker_enter_def MemoryTracker_exit_def
        MemoryTracker_init_def span_env_def rss_reading_def span_trace_def span_stop_def
        op_a_def boot_def fresh_def wrapper_audit_id_def profiler_defaults_def Let_def)

text \<open>
  C5. When \<open>profiler.enabled\<close> is true and the initialisation of the profiler backend
  raises, \<open>start\<close> has the outcome and leaves the service that it would with a successful
  initialisation; so when the base class and the two subservices start normally, \<open>start\<close>
  returns normally, the scheduler and then the continuous handler are started and running,
  and the failure shows only as one warning in the log.
\<close>

theorem start_survives_profiler_init_failure:
  assumes "enabled (service_CONF E)" and "init_from_conf E = Some e"
  shows "fst (start E self) = fst (start (E\<lparr>init_from_conf := None\<rparr>) self) \<and>
         fst (snd (start E self)) = fst (snd (start (E\<lparr>init_from_conf := None\<rparr>) self)) \<and>
         (super_start E = None \<and> scheduler_start E = None \<and> handler_start E = None \<longrightarrow>
            fst (start E self) = Inr () \<and>
            map_option running (bg_scheduler_slot (fst (snd (start E self)))) = Some True \<and>
            map_option running (continuous_handler_slot (fst (snd (start E self)))) = Some True \<and>
            snd (snd (start E self)) =
              [Super_start, Init_from_conf,
               LOG_warning_service
                 ''Failed to initialize osprofiler: %s. Profiling will be disabled.'' e,
               Bg_scheduler_start, Continuous_handler_start])"
  using assms
  by (simp add: start_ignores_init_outcome)
     (simp add: start_def init_profiler_def bg_scheduler_def continuous_handler_def
        subservice_start_def Let_def split: option.splits prod.splits)

theorem start_survives_profiler_init_failure_witness:
  "fst (start \<lparr>service_CONF = profiler_defaults True, super_start = None,
          init_from_conf = Some (Exception ''no backend''), scheduler_start = None,
          handler_start = None\<rparr> DecisionEngineService_init) = Inr () \<and>
   fst (snd (start \<lparr>service_CONF = profiler_defaults True, super_start = None,
          init_from_conf = Some (Exception ''no backend''), scheduler_start = None,
          handler_start = None\<rparr> DecisionEngineService_init)) =
     \<lparr>bg_scheduler_slot = Some \<lparr>running = True\<rparr>,
      continuous_handler_slot = Some \<lparr>running = True\<rparr>\<rparr> \<and>
   snd (snd (start \<lparr>service_CONF = profiler_defaults True, super_start = None,
          init_from_conf = Some (Exception ''no backend''), scheduler_start = None,
          handler_start = None\<rparr> DecisionEngineService_init)) =
     [Super_start, Init_from_conf,
      LOG_warning_service
        ''Failed to initialize osprofiler: %s. Profiling will be disabled.''
        (Exception ''no backend''),
      Bg_scheduler_start, Continuous_handler_start]"
  using start_survives_profiler_init_failure
          [of "\<lparr>service_CONF = profiler_defaults True, super_start = None,
                init_from_conf = Some (Exception ''no backend''), scheduler_start = None,
                handler_start = None\<rparr>" "Exception ''no backend''"
              DecisionEngineService_init]
  by (simp add: profiler_defaults_def)
     (simp add: start_def init_profiler_def bg_scheduler_def continuous_handler_def
        subservice_start_def subservice_new_def DecisionEngineService_init_def Let_def)


text \<open>
  C9. When a dict is published (\<open>trace_memory_usage\<close> set, the tracker holding its
  process handle, both samples succeed), its
  \<open>audit_id\<close> is \<open>str(audit_id)\<close> when the \<open>audit_id\<close> the wrapper extracted is truthy and
  null otherwise; so the empty string, 0 and False are published as null, and 42 and
  True as the strings "42" and "True".
\<close>

theorem published_audit_id_is_str_or_null:
  assumes "trace_memory_usage (CONF E)"
    and "psutil_Process E s = None"
    and "memory_info E s = Inr b"
    and "memory_info E (snd (profiler_trace E name info func args s)) = Inr p"
  shows "map audit_id (published (calls (snd
            (trace_with_memory E name info func args (fresh s))))) =
           [if py_truthy (wrapper_audit_id info args)
            then Some (py_str (wrapper_audit_id info args)) else None]"
  using assms by (simp add: twm_published)

theorem published_audit_id_is_str_or_null_witness:
  "map audit_id (published (calls (snd (trace_with_memory
      (span_env (profiler_defaults True) (200 * 1024 * 1024)) ''op-a''
      (InfoFn (\<lambda>x. Inr (PDict [''audit_id'' \<mapsto> PStr []]))) op_a 1 (fresh boot))))) = [None] \<and>
   map audit_id (published (calls (snd (trace_with_memory
      (span_env (profiler_defaults True) (200 * 1024 * 1024)) ''op-a''
      (InfoFn (\<lambda>x. Inr (PDict [''audit_id'' \<mapsto> PInt 0]))) op_a 1 (fresh boot))))) = [None] \<and>
   map audit_id (published (calls (snd (trace_with_memory
      (span_env (profiler_defaults True) (200 * 1024 * 1024)) ''op-a''
      (InfoFn (\<lambda>x. Inr (PDict [''audit_id'' \<mapsto> PBool False]))) op_a 1 (fresh boot))))) = [None] \<and>
   map audit_id (published (calls (snd (trace_with_memory
      (span_env (profiler_defaults True) (200 * 1024 * 1024)) ''op-a''
      (InfoFn (\<lambda>x. Inr (PDict [''audit_id'' \<mapsto> PInt 42]))) op_a 1 (fresh boot))))) =
     [Some ''42''] \<and>
   map audit_id (published (calls (snd (trace_with_memory
      (span_env (profiler_defaults True) (200 * 1024 * 1024)) ''op-a''
      (InfoFn (\<lambda>x. Inr (PDict [''audit_id'' \<mapsto> PBool True]))) op_a 1 (fresh boot))))) =
     [Some ''True''] \<and>
   map audit_id (published (calls (snd (trace_with_memory
      (span_env (profiler_defaults True) (200 * 1024 * 1024)) ''op-a''
      (InfoFn (\<lambda>x. Inr (PDict [''audit_id'' \<mapsto> PStr ''a1b2'']))) op_a 1 (fresh boot))))) =
     [Some ''a1b2'']"
  using published_audit_id_is_str_or_null
          [of "span_env (profiler_defaults True) (200 * 1024 * 1024)" boot
              "100 * 1024 * 1024" "''op-a''"
              "InfoFn (\<lambda>x. Inr (PDict [''audit_id'' \<mapsto> PStr []]))" op_a 1
              "140 * 1024 * 1024"]
        published_audit_id_is_str_or_null
          [of "span_env (profiler_defaults True) (200 * 1024 * 1024)" boot
              "100 * 1024 * 1024" "''op-a''"
              "InfoFn (\<lambda>x. Inr (PDict [''audit_id'' \<mapsto> PInt 0]))" op_a 1
              "140 * 1024 * 1024"]
        published_audit_id_is_str_or_null
          [of "span_env (profiler_defaults True) (200 * 1024 * 1024)" boot
              "100 * 1024 * 1024" "''op-a''"
              "InfoFn (\<lambda>x. Inr (PDict [''audit_id'' \<mapsto> PBool False]))" op_a 1
              "140 * 1024 * 1024"]
        published_audit_id_is_str_or_null
          [of "span_env (profiler_defaults True) (200 * 1024 * 1024)" boot
              "100 * 1024 * 1024" "''op-a''"
              "InfoFn (\<lambda>x. Inr (PDict [''audit_id'' \<mapsto> PInt 42]))" op_a 1
              "140 * 1024 * 1024"]
        published_audit_id_is_str_or_null
          [of "span_env (profiler_defaults True) (200 * 1024 * 1024)" boot
              "100 * 1024 * 1024" "''op-a''"
              "InfoFn (\<lambda>x. Inr (PDict [''audit_id'' \<mapsto> PBool True]))" op_a 1
              "140 * 1024 * 1024"]
        published_audit_id_is_str_or_null
          [of "span_env (profiler_defaults True) (200 * 1024 * 1024)" boot
              "100 * 1024 * 1024" "''op-a''"
              "InfoFn (\<lambda>x. Inr (PDict [''audit_id'' \<mapsto> PStr ''a1b2'']))" op_a 1
              "140 * 1024 * 1024"]
  by (simp add: span_env_def profiler_defaults_def rss_reading_def
        span_trace_def op_a_def boot_def wrapper_audit_id_def dec.simps)

text \<open>
  C10. When \<open>info\<close> is a dict, even one with an \<open>audit_id\<close> key, the wrapper extracts no
  correlation id: the \<open>audit_id\<close> handed to the tracker is \<open>None\<close>, and every dict
  published carries a null \<open>audit_id\<close>.
\<close>

theorem dict_info_never_extracted:
  "wrapper_audit_id (InfoDict m) args = PNone \<and>
   (\<forall>d \<in> set (published (calls (snd
        (trace_with_memory E name (InfoDict m) func args (fresh s))))).
      audit_id d = None)"
proof -
  have none: "wrapper_audit_id (InfoDict m) args = PNone"
    by (simp add: wrapper_audit_id_def)
  show ?thesis
    using twm_published_audit_id [of E name "InfoDict m" func args s]
    by (simp add: none)
qed

theorem dict_info_never_extracted_witness:
  "wrapper_audit_id (InfoDict [''audit_id'' \<mapsto> PStr ''a1b2'']) (1::int) = PNone \<and>
   published (calls (snd (trace_with_memory
      (span_env (profiler_defaults True) (200 * 1024 * 1024)) ''op-a''
      (InfoDict [''audit_id'' \<mapsto> PStr ''a1b2'']) op_a 1 (fresh boot)))) =
     [\<lparr>memory_baseline_mb = 100, memory_peak_mb = 140, memory_delta_mb = 40,
       audit_id = None\<rparr>]"
  using dict_info_never_extracted
          [of "[''audit_id'' \<mapsto> PStr ''a1b2'']" 1
              "span_env (profiler_defaults True) (200 * 1024 * 1024)" "''op-a''" op_a boot]
  by (simp add: twm_published span_env_def profiler_defaults_def rss_reading_def
        span_trace_def op_a_def boot_def)

end
